theory Spec2Isabelle
  imports Main "HOL-Library.Sublist"
begin

section \<open>The bootstrap module \<open>frontend/src/main.jsx\<close>\<close>

text \<open>
  The module consists of six import declarations and two statements:
  \<^verbatim>\<open>
  import { StrictMode } from 'react'
  import { createRoot } from 'react-dom/client'
  import './index.css'
  import App from './App.jsx'
  import { StytchProvider } from '@stytch/react';
  import { createStytchUIClient } from '@stytch/react/ui';

  const stytch = createStytchUIClient('public-token-test-ae71e9a8-...');

  createRoot(document.getElementById('root')).render(
    <StytchProvider stytch={stytch}>
      <App />
    </StytchProvider>
  )
  \<close>
  Everything the module calls lives outside it (the module loader, the DOM, React and
  the identity SDK). The module is therefore embedded as a program over a
  \<^emph>\<open>platform\<close>: a record of the operations it calls, each a state transformer on a
  world that either returns a value or throws. The module body threads the world
  through its calls in JavaScript's evaluation order and keeps a transcript of every
  call together with its response.

  The import declarations are hoisted: the modules they name are evaluated, in source order,
  before the first statement of the body. In the second statement the argument of
  \<open>createRoot\<close> is evaluated first, then \<open>createRoot\<close> is called, then the JSX element
  is built (which creates a value and calls nothing), then \<open>render\<close> is called. The
  transcript holds the imports the source writes; what a JSX compiler adds for its own
  runtime is not part of the source.
\<close>

subsection \<open>JSX elements\<close>

text \<open>The component bindings the module imports: \<open>StrictMode\<close>, \<open>App\<close>, \<open>StytchProvider\<close>.\<close>

datatype component = StrictMode | App | StytchProvider

text \<open>
  A JSX element: the component, its props (attribute name and value; the only prop value
  in this module is the client object) and its children.
\<close>

datatype 'c element = Element component "(string \<times> 'c) list" "'c element list"

fun components :: "'c element \<Rightarrow> component list" where
  "components (Element k ps cs) = k # concat (map components cs)"

subsection \<open>Exceptions, calls and responses\<close>

datatype error = Error string

datatype ('c, 'n, 'r) call =
    Import string
  | CreateStytchUIClient string
  | GetElementById string
  | CreateRoot "'n option"
  | Render 'r "'c element"

datatype ('c, 'n, 'r) response =
    Threw error
  | Done
  | GotClient 'c
  | GotNode "'n option"
  | GotRoot 'r

text \<open>
  The platform: \<open>'w\<close> is the world, \<open>'c\<close> the client object, \<open>'n\<close> a DOM node,
  \<open>'r\<close> a React root. \<open>getElementById\<close> returns \<open>null\<close> as \<open>None\<close>. An operation that
  throws may still have changed the world.
\<close>

record ('w, 'c, 'n, 'r) platform =
  importModule :: "string \<Rightarrow> 'w \<Rightarrow> (error + unit) \<times> 'w"
  createStytchUIClient :: "string \<Rightarrow> 'w \<Rightarrow> (error + 'c) \<times> 'w"
  getElementById :: "string \<Rightarrow> 'w \<Rightarrow> (error + 'n option) \<times> 'w"
  createRoot :: "'n option \<Rightarrow> 'w \<Rightarrow> (error + 'r) \<times> 'w"
  render :: "'r \<Rightarrow> 'c element \<Rightarrow> 'w \<Rightarrow> (error + unit) \<times> 'w"

record ('w, 'c, 'n, 'r) run =
  world :: 'w
  trace :: "(('c, 'n, 'r) call \<times> ('c, 'n, 'r) response) list"

type_synonym ('s, 'a) js = "'s \<Rightarrow> (error + 'a) \<times> 's"

text \<open>Sequencing: an exception skips the rest; there is no handler anywhere.\<close>

definition bind_js :: "('s, 'a) js \<Rightarrow> ('a \<Rightarrow> ('s, 'b) js) \<Rightarrow> ('s, 'b) js" where
  "bind_js m f s = (case m s of (Inl e, s') \<Rightarrow> (Inl e, s') | (Inr a, s') \<Rightarrow> f a s')"

text \<open>Performing one platform call: the world is updated and the call is recorded.\<close>

definition invoke ::
  "('c, 'n, 'r) call \<Rightarrow> ('a \<Rightarrow> ('c, 'n, 'r) response) \<Rightarrow> ('w \<Rightarrow> (error + 'a) \<times> 'w)
    \<Rightarrow> (('w, 'c, 'n, 'r) run, 'a) js" where
  "invoke c wrap act s =
     (case act (world s) of
        (res, w') \<Rightarrow>
          (res, \<lparr>world = w',
                 trace = trace s @ [(c, case res of Inl e \<Rightarrow> Threw e | Inr a \<Rightarrow> wrap a)]\<rparr>))"

subsection \<open>The module\<close>

definition public_token :: string where
  "public_token = ''public-token-test-ae71e9a8-114f-4d46-a4cf-9ac23b2622da''"

text \<open>The module specifiers of the import declarations, in source order.\<close>

definition import_specifiers :: "string list" where
  "import_specifiers =
     [''react'', ''react-dom/client'', ''./index.css'', ''./App.jsx'',
      ''@stytch/react'', ''@stytch/react/ui'']"

text \<open>Imports are evaluated in source order before the body; the first that throws ends the run.\<close>

fun import_all ::
  "('w, 'c, 'n, 'r) platform \<Rightarrow> string list \<Rightarrow> (('w, 'c, 'n, 'r) run, unit) js" where
  "import_all P [] s = (Inr (), s)"
| "import_all P (m # ms) s =
     bind_js (invoke (Import m) (\<lambda>_. Done) (importModule P m)) (\<lambda>_. import_all P ms) s"

text \<open>The element \<open><StytchProvider stytch={stytch}><App /></StytchProvider>\<close>.\<close>

definition app_tree :: "'c \<Rightarrow> 'c element" where
  "app_tree stytch = Element StytchProvider [(''stytch'', stytch)] [Element App [] []]"

text \<open>The expression \<open>createRoot(document.getElementById('root'))\<close>.\<close>

definition mount_root :: "('w, 'c, 'n, 'r) platform \<Rightarrow> (('w, 'c, 'n, 'r) run, 'r) js" where
  "mount_root P =
     bind_js (invoke (GetElementById ''root'') GotNode (getElementById P ''root''))
       (\<lambda>el. invoke (CreateRoot el) GotRoot (createRoot P el))"

definition main_jsx :: "('w, 'c, 'n, 'r) platform \<Rightarrow> (('w, 'c, 'n, 'r) run, unit) js" where
  "main_jsx P =
     bind_js (import_all P import_specifiers) (\<lambda>_.
     bind_js (invoke (CreateStytchUIClient public_token) GotClient
                (createStytchUIClient P public_token)) (\<lambda>stytch.
     bind_js (mount_root P) (\<lambda>root.
     invoke (Render root (app_tree stytch)) (\<lambda>_. Done) (render P root (app_tree stytch)))))"

text \<open>A run of the module from world \<open>w\<close>, with an empty transcript.\<close>

definition start :: "'w \<Rightarrow> ('w, 'c, 'n, 'r) run" where
  "start w = \<lparr>world = w, trace = []\<rparr>"

definition bootstrap ::
  "('w, 'c, 'n, 'r) platform \<Rightarrow> 'w \<Rightarrow> (error + unit) \<times> ('w, 'c, 'n, 'r) run" where
  "bootstrap P w = main_jsx P (start w)"

definition calls ::
  "(error + unit) \<times> ('w, 'c, 'n, 'r) run \<Rightarrow> ('c, 'n, 'r) call list" where
  "calls res = map fst (trace (snd res))"

fun is_client_call :: "('c, 'n, 'r) call \<Rightarrow> bool" where
  "is_client_call (CreateStytchUIClient t) = True"
| "is_client_call _ = False"


fun is_import_call :: "('c, 'n, 'r) call \<Rightarrow> bool" where
  "is_import_call (Import m) = True"
| "is_import_call _ = False"

subsection \<open>A reference platform: the browser\<close>

text \<open>
  The host behaviour the module relies on, as its platform documents it.
  \<^item> The page holds the document's elements in tree order (each with its id and the trees
    rendered into it), the style sheets in force, the modules already evaluated, the
    identity clients constructed, the containers that have a React root, and the process
    environment.
  \<^item> A module is evaluated once per page; evaluating a \<open>.css\<close> module puts the style
    sheet in force.
  \<^item> \<open>createStytchUIClient\<close> returns a client configured with the token.
  \<^item> \<open>document.getElementById\<close> returns the first element in tree order with that id,
    or \<open>null\<close>; it does not throw.
  \<^item> \<open>createRoot\<close> throws unless its argument is an element of the document; otherwise
    it creates a root for that container.
  \<^item> \<open>root.render\<close> hands the tree to the root's container.
\<close>

datatype client = StytchUIClient string

datatype react_root = ReactRoot nat

record dom_element =
  elem_id :: string
  rendered :: "client element list"

record page =
  document :: "dom_element list"
  stylesheets :: "string list"
  modules :: "string list"
  clients :: "client list"
  roots :: "nat list"
  environment :: "(string \<times> string) list"

definition browser_import :: "string \<Rightarrow> page \<Rightarrow> (error + unit) \<times> page" where
  "browser_import m w =
     (if m \<in> set (modules w) then (Inr (), w)
      else (Inr (), w\<lparr>modules := modules w @ [m],
                       stylesheets := (if suffix ''.css'' m then stylesheets w @ [m]
                                       else stylesheets w)\<rparr>))"

definition browser_createStytchUIClient :: "string \<Rightarrow> page \<Rightarrow> (error + client) \<times> page" where
  "browser_createStytchUIClient t w =
     (Inr (StytchUIClient t), w\<lparr>clients := clients w @ [StytchUIClient t]\<rparr>)"

fun find_id :: "string \<Rightarrow> dom_element list \<Rightarrow> nat option" where
  "find_id i [] = None"
| "find_id i (e # es) =
     (if elem_id e = i then Some 0 else map_option Suc (find_id i es))"

definition browser_getElementById :: "string \<Rightarrow> page \<Rightarrow> (error + nat option) \<times> page" where
  "browser_getElementById i w = (Inr (find_id i (document w)), w)"

definition not_an_element :: error where
  "not_an_element = Error ''Target container is not a DOM element.''"

definition browser_createRoot :: "nat option \<Rightarrow> page \<Rightarrow> (error + react_root) \<times> page" where
  "browser_createRoot el w =
     (case el of
        None \<Rightarrow> (Inl not_an_element, w)
      | Some n \<Rightarrow>
          if n < length (document w)
          then (Inr (ReactRoot n), w\<lparr>roots := roots w @ [n]\<rparr>)
          else (Inl not_an_element, w))"

definition browser_render ::
  "react_root \<Rightarrow> client element \<Rightarrow> page \<Rightarrow> (error + unit) \<times> page" where
  "browser_render r t w =
     (case r of ReactRoot n \<Rightarrow>
        if n < length (document w) \<and> n \<in> set (roots w)
        then (Inr (),
              w\<lparr>document :=
                  (document w)[n := (document w ! n)\<lparr>rendered := rendered (document w ! n) @ [t]\<rparr>]\<rparr>)
        else (Inl (Error ''Cannot update an unmounted root.''), w))"

definition browser :: "(page, client, nat, react_root) platform" where
  "browser = \<lparr>importModule = browser_import,
              createStytchUIClient = browser_createStytchUIClient,
              getElementById = browser_getElementById,
              createRoot = browser_createRoot,
              render = browser_render\<rparr>"

text \<open>The page after the modules \<open>ms\<close> have been imported in order.\<close>

definition load_modules :: "string list \<Rightarrow> page \<Rightarrow> page" where
  "load_modules ms w = foldl (\<lambda>w m. snd (browser_import m w)) w ms"

text \<open>A page whose body holds a header and the mount point, nothing loaded yet.\<close>

definition index_html :: page where
  "index_html =
     \<lparr>document = [\<lparr>elem_id = ''header'', rendered = []\<rparr>,
                  \<lparr>elem_id = ''root'', rendered = []\<rparr>],
      stylesheets = [], modules = [], clients = [], roots = [],
      environment = [(''NODE_ENV'', ''development'')]\<rparr>"

text \<open>The same page without the mount point.\<close>

definition no_root_html :: page where
  "no_root_html =
     \<lparr>document = [\<lparr>elem_id = ''header'', rendered = []\<rparr>],
      stylesheets = [], modules = [], clients = [], roots = [],
      environment = [(''NODE_ENV'', ''development'')]\<rparr>"






text \<open>The transcript of the imports when each of \<open>ms\<close> evaluates.\<close>

definition imported :: "string list \<Rightarrow> (('c, 'n, 'r) call \<times> ('c, 'n, 'r) response) list" where
  "imported ms = map (\<lambda>m. (Import m, Done)) ms"

section \<open>The shape of every run\<close>

text \<open>
  The imports either all evaluate, or the transcript ends with the first one that throws.
\<close>

lemma import_all_shape:
  "import_all P ms s = (res, s') \<Longrightarrow>
     (case res of
        Inr u \<Rightarrow> trace s' = trace s @ imported ms
      | Inl e \<Rightarrow> (\<exists>k < length ms.
                   trace s' = trace s @ imported (take k ms) @ [(Import (ms ! k), Threw e)]))"
proof (induction ms arbitrary: s)
  case Nil
  then show ?case by (auto simp: imported_def)
next
  case (Cons m ms)
  obtain r w' where act: "importModule P m (world s) = (r, w')"
    by (cases "importModule P m (world s)")
  show ?case
  proof (cases r)
    case (Inl e)
    with act Cons.prems have "res = Inl e" "trace s' = trace s @ [(Import m, Threw e)]"
      by (auto simp: bind_js_def invoke_def)
    then show ?thesis by (auto simp: imported_def intro!: exI [of _ 0])
  next
    case (Inr u)
    let ?s1 = "\<lparr>world = w', trace = trace s @ [(Import m, Done)]\<rparr>"
    from act Inr Cons.prems have rest: "import_all P ms ?s1 = (res, s')"
      by (simp add: bind_js_def invoke_def)
    from Cons.IH [OF rest] show ?thesis
    proof (cases res)
      case (Inl e)
      with Cons.IH [OF rest] obtain k where
        "k < length ms"
        "trace s' = trace ?s1 @ imported (take k ms) @ [(Import (ms ! k), Threw e)]"
        by auto
      then have "Suc k < length (m # ms) \<and>
        trace s' = trace s @ imported (take (Suc k) (m # ms)) @ [(Import ((m # ms) ! Suc k), Threw e)]"
        by (simp add: imported_def)
      with Inl show ?thesis by (auto simp del: take_Suc_Cons nth_Cons_Suc)
    next
      case (Inr u')
      with Cons.IH [OF rest] show ?thesis by (simp add: imported_def)
    qed
  qed
qed

text \<open>
  Whatever the platform does, a run takes one of six courses: it stops at the first call
  that throws, with that exception as its outcome, or it completes after the render.
\<close>

lemma bootstrap_cases [consumes 0, case_names import_throws client_throws lookup_throws
    root_throws render_throws completes]:
  fixes P :: "('w, 'c, 'n, 'r) platform"
  obtains
    (import_throws) k e where
      "k < length import_specifiers"
      "fst (bootstrap P w) = Inl e"
      "trace (snd (bootstrap P w)) =
         imported (take k import_specifiers) @ [(Import (import_specifiers ! k), Threw e)]"
  | (client_throws) e where
      "fst (bootstrap P w) = Inl e"
      "trace (snd (bootstrap P w)) =
         imported import_specifiers @ [(CreateStytchUIClient public_token, Threw e)]"
  | (lookup_throws) c e where
      "fst (bootstrap P w) = Inl e"
      "trace (snd (bootstrap P w)) =
         imported import_specifiers @
         [(CreateStytchUIClient public_token, GotClient c),
          (GetElementById ''root'', Threw e)]"
  | (root_throws) c el e where
      "fst (bootstrap P w) = Inl e"
      "trace (snd (bootstrap P w)) =
         imported import_specifiers @
         [(CreateStytchUIClient public_token, GotClient c),
          (GetElementById ''root'', GotNode el),
          (CreateRoot el, Threw e)]"
  | (render_throws) c el r e where
      "fst (bootstrap P w) = Inl e"
      "trace (snd (bootstrap P w)) =
         imported import_specifiers @
         [(CreateStytchUIClient public_token, GotClient c),
          (GetElementById ''root'', GotNode el),
          (CreateRoot el, GotRoot r),
          (Render r (app_tree c), Threw e)]"
  | (completes) c el r where
      "fst (bootstrap P w) = Inr ()"
      "trace (snd (bootstrap P w)) =
         imported import_specifiers @
         [(CreateStytchUIClient public_token, GotClient c),
          (GetElementById ''root'', GotNode el),
          (CreateRoot el, GotRoot r),
          (Render r (app_tree c), Done)]"
proof -
  obtain r0 s0 where imp: "import_all P import_specifiers (start w) = (r0, s0)"
    by (cases "import_all P import_specifiers (start w :: ('w, 'c, 'n, 'r) run)")
  note shape = import_all_shape [OF imp]
  show thesis
  proof (cases r0)
    case (Inl e)
    with shape obtain k where k: "k < length import_specifiers"
      "trace s0 = imported (take k import_specifiers) @ [(Import (import_specifiers ! k), Threw e)]"
      by (auto simp: start_def)
    from imp Inl have "bootstrap P w = (Inl e, s0)"
      by (simp add: bootstrap_def main_jsx_def bind_js_def)
    with k show thesis by (intro import_throws [of k e]) simp_all
  next
    case (Inr u)
    with shape have tr0: "trace s0 = imported import_specifiers"
      by (simp add: start_def)
    obtain r1 w1 where a1: "createStytchUIClient P public_token (world s0) = (r1, w1)"
      by (cases "createStytchUIClient P public_token (world s0)")
    show thesis
    proof (cases r1)
      case (Inl e)
      with imp Inr a1 tr0 show thesis
        by (intro client_throws [of e])
           (simp_all add: bootstrap_def main_jsx_def bind_js_def invoke_def)
    next
      case c: (Inr c)
      obtain r2 w2 where a2: "getElementById P ''root'' w1 = (r2, w2)"
        by (cases "getElementById P ''root'' w1")
      show thesis
      proof (cases r2)
        case (Inl e)
        with imp Inr a1 c a2 tr0 show thesis
          by (intro lookup_throws [of e c])
             (simp_all add: bootstrap_def main_jsx_def mount_root_def bind_js_def invoke_def)
      next
        case el: (Inr el)
        obtain r3 w3 where a3: "createRoot P el w2 = (r3, w3)"
          by (cases "createRoot P el w2")
        show thesis
        proof (cases r3)
          case (Inl e)
          with imp Inr a1 c a2 el a3 tr0 show thesis
            by (intro root_throws [of e c el])
               (simp_all add: bootstrap_def main_jsx_def mount_root_def bind_js_def invoke_def)
        next
          case r: (Inr r)
          obtain r4 w4 where a4: "render P r (app_tree c) w3 = (r4, w4)"
            by (cases "render P r (app_tree c) w3")
          show thesis
          proof (cases r4)
            case (Inl e)
            with imp Inr a1 c a2 el a3 r a4 tr0 show thesis
              by (intro render_throws [of e c el r])
                 (simp_all add: bootstrap_def main_jsx_def mount_root_def bind_js_def invoke_def)
          next
            case (Inr u')
            with imp \<open>r0 = Inr u\<close> a1 c a2 el a3 r a4 tr0 show thesis
              by (intro completes [of c el r])
                 (simp_all add: bootstrap_def main_jsx_def mount_root_def bind_js_def invoke_def)
          qed
        qed
      qed
    qed
  qed
qed

text \<open>Before its last entry, a transcript holds no exception.\<close>

lemma imported_no_throw: "ev \<in> set (imported ms) \<Longrightarrow> \<exists>m. ev = (Import m, Done)"
  by (auto simp: imported_def)

lemma throw_is_last:
  assumes clean: "\<And>x. x \<in> set xs \<Longrightarrow> snd x \<noteq> Threw e"
    and eq: "xs @ [z] = pre @ (c, Threw e) # post"
  shows "post = [] \<and> z = (c, Threw e)"
proof (cases post rule: rev_cases)
  case Nil
  with eq show ?thesis by simp
next
  case (snoc ys y)
  with eq have "xs @ [z] = (pre @ (c, Threw e) # ys) @ [y]" by simp
  then have "xs = pre @ (c, Threw e) # ys" by (simp only: append1_eq_conv)
  then have "(c, Threw e) \<in> set xs" by simp
  from clean [OF this] show ?thesis by simp
qed

lemma bootstrap_ends:
  obtains xs c r where
    "trace (snd (bootstrap P w)) = xs @ [(c, r)]"
    "\<And>x e. x \<in> set xs \<Longrightarrow> snd x \<noteq> Threw e"
    "\<And>e. fst (bootstrap P w) = Inl e \<longleftrightarrow> r = Threw e"
proof (cases rule: bootstrap_cases [of P w])
  case (import_throws k e)
  show ?thesis
    by (rule that [of "imported (take k import_specifiers)" _ "Threw e"])
       (use import_throws in \<open>auto dest: imported_no_throw\<close>)
next
  case (client_throws e)
  show ?thesis
    by (rule that [of "imported import_specifiers" _ "Threw e"])
       (use client_throws in \<open>auto dest: imported_no_throw\<close>)
next
  case (lookup_throws c e)
  show ?thesis
    by (rule that [of "imported import_specifiers @
          [(CreateStytchUIClient public_token, GotClient c)]" _ "Threw e"])
       (use lookup_throws in \<open>auto dest: imported_no_throw\<close>)
next
  case (root_throws c el e)
  show ?thesis
    by (rule that [of "imported import_specifiers @
          [(CreateStytchUIClient public_token, GotClient c),
           (GetElementById ''root'', GotNode el)]" _ "Threw e"])
       (use root_throws in \<open>auto dest: imported_no_throw\<close>)
next
  case (render_throws c el r e)
  show ?thesis
    by (rule that [of "imported import_specifiers @
          [(CreateStytchUIClient public_token, GotClient c),
           (GetElementById ''root'', GotNode el), (CreateRoot el, GotRoot r)]" _ "Threw e"])
       (use render_throws in \<open>auto dest: imported_no_throw\<close>)
next
  case (completes c el r)
  show ?thesis
    by (rule that [of "imported import_specifiers @
          [(CreateStytchUIClient public_token, GotClient c),
           (GetElementById ''root'', GotNode el), (CreateRoot el, GotRoot r)]" _ Done])
       (use completes in \<open>auto dest: imported_no_throw\<close>)
qed

section \<open>Runs in the browser\<close>

text \<open>The lookup finds an element exactly when one has the id.\<close>

lemma find_id_None: "find_id i es = None \<longleftrightarrow> (\<forall>x \<in> set es. elem_id x \<noteq> i)"
  by (induction es) auto

lemma find_id_Some:
  "find_id i es = Some n \<Longrightarrow> n < length es \<and> elem_id (es ! n) = i"
  by (induction es arbitrary: n) (auto split: if_splits)

text \<open>Importing touches the modules and the style sheets, nothing else.\<close>

lemma load_modules_Cons: "load_modules (m # ms) w = load_modules ms (snd (browser_import m w))"
  by (simp add: load_modules_def)

lemma load_modules_frame:
  "document (load_modules ms w) = document w \<and> clients (load_modules ms w) = clients w \<and>
   roots (load_modules ms w) = roots w \<and> environment (load_modules ms w) = environment w"
proof (induction ms arbitrary: w)
  case Nil
  show ?case by (simp add: load_modules_def)
next
  case (Cons m ms)
  show ?case by (simp add: load_modules_Cons Cons.IH browser_import_def)
qed

lemma browser_fields:
  "importModule browser = browser_import"
  "createStytchUIClient browser = browser_createStytchUIClient"
  "getElementById browser = browser_getElementById"
  "createRoot browser = browser_createRoot"
  "render browser = browser_render"
  by (simp_all add: browser_def)

lemma browser_import_all:
  "import_all browser ms s =
     (Inr (), \<lparr>world = load_modules ms (world s), trace = trace s @ imported ms\<rparr>)"
proof (induction ms arbitrary: s)
  case Nil
  show ?case by (simp add: load_modules_def imported_def)
next
  case (Cons m ms)
  show ?case
    by (simp add: Cons.IH load_modules_Cons bind_js_def invoke_def browser_fields
        browser_import_def imported_def)
qed



text \<open>The two courses of a run in the browser: the mount point is there, or it is not.\<close>

lemma bootstrap_browser_mounted:
  assumes "find_id ''root'' (document w) = Some n"
  shows "bootstrap browser w =
    (Inr (),
     \<lparr>world = (load_modules import_specifiers w)
        \<lparr>document := (document w)[n := (document w ! n)
             \<lparr>rendered := rendered (document w ! n) @ [app_tree (StytchUIClient public_token)]\<rparr>],
         clients := clients w @ [StytchUIClient public_token],
         roots := roots w @ [n]\<rparr>,
      trace = imported import_specifiers @
        [(CreateStytchUIClient public_token, GotClient (StytchUIClient public_token)),
         (GetElementById ''root'', GotNode (Some n)),
         (CreateRoot (Some n), GotRoot (ReactRoot n)),
         (Render (ReactRoot n) (app_tree (StytchUIClient public_token)), Done)]\<rparr>)"
proof -
  from find_id_Some [OF assms] have n: "n < length (document w)" by simp
  show ?thesis
    using assms n
    by (simp add: bootstrap_def main_jsx_def mount_root_def bind_js_def invoke_def
        browser_import_all start_def load_modules_frame
        browser_fields browser_createStytchUIClient_def browser_getElementById_def
        browser_createRoot_def browser_render_def)
qed

lemma bootstrap_browser_unmounted:
  assumes "find_id ''root'' (document w) = None"
  shows "bootstrap browser w =
    (Inl not_an_element,
     \<lparr>world = (load_modules import_specifiers w)
        \<lparr>clients := clients w @ [StytchUIClient public_token]\<rparr>,
      trace = imported import_specifiers @
        [(CreateStytchUIClient public_token, GotClient (StytchUIClient public_token)),
         (GetElementById ''root'', GotNode None),
         (CreateRoot None, Threw not_an_element)]\<rparr>)"
  using assms
  by (simp add: bootstrap_def main_jsx_def mount_root_def bind_js_def invoke_def
      browser_import_all start_def load_modules_frame
      browser_fields browser_createStytchUIClient_def browser_getElementById_def
      browser_createRoot_def)

text \<open>The two example pages.\<close>

lemma index_html_mount: "find_id ''root'' (document index_html) = Some 1"
  by (simp add: index_html_def)

lemma no_root_html_mount: "find_id ''root'' (document no_root_html) = None"
  by (simp add: no_root_html_def)

lemmas index_html_run = bootstrap_browser_mounted [OF index_html_mount]

lemmas no_root_html_run = bootstrap_browser_unmounted [OF no_root_html_mount]

section \<open>Insensitivity to the world\<close>






section \<open>The claims\<close>

subsection \<open>Rendering\<close>





text \<open>
  C9. On every platform, the tree of every render call has \<open>StytchProvider\<close> as its
  outermost component, with \<open>App\<close> as its only child; \<open>StrictMode\<close>, although imported,
  occurs nowhere in it.
\<close>

theorem provider_is_outermost:
  assumes "(Render r t, x) \<in> set (trace (snd (bootstrap P w)))"
  shows "(\<exists>c. t = Element StytchProvider [(''stytch'', c)] [Element App [] []]) \<and>
         StrictMode \<notin> set (components t)"
  using assms
  by (cases rule: bootstrap_cases [of P w]) (auto dest: imported_no_throw simp: app_tree_def)

theorem provider_is_outermost_witness:
  "(Render (ReactRoot 1) (app_tree (StytchUIClient public_token)), Done)
     \<in> set (trace (snd (bootstrap browser index_html))) \<and>
   (\<exists>c. app_tree (StytchUIClient public_token) =
        Element StytchProvider [(''stytch'', c)] [Element App [] []]) \<and>
   StrictMode \<notin> set (components (app_tree (StytchUIClient public_token)))"
proof -
  have mem: "(Render (ReactRoot 1) (app_tree (StytchUIClient public_token)), Done)
     \<in> set (trace (snd (bootstrap browser index_html)))"
    by (simp add: index_html_run)
  from mem provider_is_outermost [OF mem] show ?thesis by blast
qed

subsection \<open>The client\<close>

text \<open>
  C4. On every platform and from every world, the client constructions of a run are exactly
  one call whose only argument is the constant \<open>public_token\<close>; there is none only when
  an import threw before the module body began.
\<close>

theorem client_from_fixed_token:
  "filter is_client_call (calls (bootstrap P w)) =
     (if \<exists>k e. last (trace (snd (bootstrap P w))) = (Import k, Threw e) then []
      else [CreateStytchUIClient public_token])"
  by (cases rule: bootstrap_cases [of P w])
     (auto simp: calls_def imported_def filter_empty_conv)

theorem client_from_fixed_token_witness:
  "filter is_client_call (calls (bootstrap browser index_html)) =
     [CreateStytchUIClient public_token]"
proof -
  have "\<not> (\<exists>k e. last (trace (snd (bootstrap browser index_html))) = (Import k, Threw e))"
    by (simp add: index_html_run)
  with client_from_fixed_token [of browser index_html] show ?thesis by simp
qed

subsection \<open>The mount point\<close>

text \<open>
  C3. In the browser, \<open>createRoot(document.getElementById('root'))\<close> throws exactly when
  the document holds no element with id \<open>root\<close>; when it holds one, the expression returns
  a root for an element with that id.
\<close>

theorem mount_point_acquisition:
  "((\<exists>e. fst (mount_root browser s) = Inl e) \<longleftrightarrow>
      \<not> (\<exists>x \<in> set (document (world s)). elem_id x = ''root'')) \<and>
   ((\<exists>x \<in> set (document (world s)). elem_id x = ''root'') \<longrightarrow>
      (\<exists>n < length (document (world s)).
         elem_id (document (world s) ! n) = ''root'' \<and>
         fst (mount_root browser s) = Inr (ReactRoot n)))"
proof (cases "find_id ''root'' (document (world s))")
  case None
  then have "fst (mount_root browser s) = Inl not_an_element"
    by (simp add: mount_root_def bind_js_def invoke_def browser_fields
        browser_getElementById_def browser_createRoot_def)
  with None show ?thesis by (simp add: find_id_None)
next
  case (Some n)
  from find_id_Some [OF Some] have n: "n < length (document (world s))"
    "elem_id (document (world s) ! n) = ''root''" by simp_all
  from Some n have "fst (mount_root browser s) = Inr (ReactRoot n)"
    by (simp add: mount_root_def bind_js_def invoke_def browser_fields
        browser_getElementById_def browser_createRoot_def)
  moreover from Some have "\<exists>x \<in> set (document (world s)). elem_id x = ''root''"
    using find_id_None [of "''root''" "document (world s)"] by auto
  ultimately show ?thesis using n by auto
qed

theorem mount_point_acquisition_witness:
  "(\<exists>e. fst (mount_root browser (start no_root_html)) = Inl e) \<and>
   (\<exists>n. fst (mount_root browser (start index_html)) = Inr (ReactRoot n))"
proof -
  have "\<not> (\<exists>x \<in> set (document (world (start no_root_html :: (page, client, nat, react_root) run))).
           elem_id x = ''root'')"
    by (simp add: start_def no_root_html_def)
  with mount_point_acquisition [of "start no_root_html"]
  have 1: "\<exists>e. fst (mount_root browser (start no_root_html)) = Inl e" by blast
  have "\<exists>x \<in> set (document (world (start index_html :: (page, client, nat, react_root) run))).
           elem_id x = ''root''"
    by (simp add: start_def index_html_def)
  with mount_point_acquisition [of "start index_html"]
  have 2: "\<exists>n. fst (mount_root browser (start index_html)) = Inr (ReactRoot n)" by blast
  from 1 2 show ?thesis by blast
qed

text \<open>
  C10. In the browser, on every document without an element with id \<open>root\<close> the run
  ends with the exception of \<open>createRoot\<close>, after the client has been constructed: the
  construction is in the transcript before the lookup, and the client is in the world the
  failed run leaves behind.
\<close>

theorem client_exists_when_mount_fails:
  assumes "\<forall>x \<in> set (document w). elem_id x \<noteq> ''root''"
  shows "fst (bootstrap browser w) = Inl not_an_element \<and>
         trace (snd (bootstrap browser w)) =
           imported import_specifiers @
           [(CreateStytchUIClient public_token, GotClient (StytchUIClient public_token)),
            (GetElementById ''root'', GotNode None),
            (CreateRoot None, Threw not_an_element)] \<and>
         clients (world (snd (bootstrap browser w))) =
           clients w @ [StytchUIClient public_token]"
proof -
  from assms have "find_id ''root'' (document w) = None"
    by (simp add: find_id_None)
  from bootstrap_browser_unmounted [OF this] show ?thesis by simp
qed

theorem client_exists_when_mount_fails_witness:
  "fst (bootstrap browser no_root_html) = Inl not_an_element \<and>
   clients (world (snd (bootstrap browser no_root_html))) = [StytchUIClient public_token]"
proof -
  have "\<forall>x \<in> set (document no_root_html). elem_id x \<noteq> ''root''"
    by (simp add: no_root_html_def)
  from client_exists_when_mount_fails [OF this] show ?thesis
    by (simp add: no_root_html_def)
qed

subsection \<open>Exceptions\<close>

text \<open>
  C7. On every platform, an exception thrown by any call of a run is the last entry of the
  transcript and is, unchanged, the outcome of the run; conversely a run that ends with an
  exception ends with the call that threw it. Nothing is caught, replaced or retried.
\<close>

theorem exceptions_propagate_unchanged:
  "(trace (snd (bootstrap P w)) = pre @ (c, Threw e) # post \<longrightarrow>
      post = [] \<and> fst (bootstrap P w) = Inl e) \<and>
   (fst (bootstrap P w) = Inl e \<longrightarrow>
      trace (snd (bootstrap P w)) \<noteq> [] \<and>
      (\<exists>c. last (trace (snd (bootstrap P w))) = (c, Threw e)))"
proof -
  obtain xs c' r where tr: "trace (snd (bootstrap P w)) = xs @ [(c', r)]"
    and clean: "\<And>x e. x \<in> set xs \<Longrightarrow> snd x \<noteq> Threw e"
    and out: "\<And>e. fst (bootstrap P w) = Inl e \<longleftrightarrow> r = Threw e"
    by (rule bootstrap_ends [of P w]) blast
  have "post = [] \<and> fst (bootstrap P w) = Inl e"
    if "trace (snd (bootstrap P w)) = pre @ (c, Threw e) # post"
  proof -
    from that tr have "xs @ [(c', r)] = pre @ (c, Threw e) # post" by simp
    from throw_is_last [OF clean this] out show ?thesis by simp
  qed
  moreover have "trace (snd (bootstrap P w)) \<noteq> [] \<and>
      (\<exists>c. last (trace (snd (bootstrap P w))) = (c, Threw e))"
    if "fst (bootstrap P w) = Inl e"
    using that tr out by simp
  ultimately show ?thesis by blast
qed

theorem exceptions_propagate_unchanged_witness:
  "trace (snd (bootstrap browser no_root_html)) =
     (imported import_specifiers @
      [(CreateStytchUIClient public_token, GotClient (StytchUIClient public_token)),
       (GetElementById ''root'', GotNode None)]) @
     (CreateRoot None, Threw not_an_element) # [] \<and>
   fst (bootstrap browser no_root_html) = Inl not_an_element \<and>
   (\<exists>c. last (trace (snd (bootstrap browser no_root_html))) = (c, Threw not_an_element))"
proof -
  have tr: "trace (snd (bootstrap browser no_root_html)) =
     (imported import_specifiers @
      [(CreateStytchUIClient public_token, GotClient (StytchUIClient public_token)),
       (GetElementById ''root'', GotNode None)]) @
     (CreateRoot None, Threw not_an_element) # []"
    by (simp add: no_root_html_run)
  note inst = exceptions_propagate_unchanged [of browser no_root_html
      "imported import_specifiers @
       [(CreateStytchUIClient public_token, GotClient (StytchUIClient public_token)),
        (GetElementById ''root'', GotNode None)]"
      "CreateRoot None" not_an_element "[]"]
  from inst tr have out: "fst (bootstrap browser no_root_html) = Inl not_an_element"
    by blast
  with inst have "\<exists>c. last (trace (snd (bootstrap browser no_root_html))) = (c, Threw not_an_element)"
    by blast
  with tr out show ?thesis by blast
qed

subsection \<open>Effects\<close>






end
